theory Spec2Isabelle
  imports Main
begin

section \<open>JavaScript values and the built-ins the handlers call\<close>

text \<open>
  The handlers of \<^verbatim>\<open>server/routes/profile.js\<close>, the registration handler and the
  \<^verbatim>\<open>auth\<close> middleware are embedded as pure functions from a request and the contents of
  the document store to a response and the new contents. Identifiers are the strings the
  store prints for them.
\<close>

type_synonym oid = string

subsection \<open>Object literals and \<^verbatim>\<open>JSON.stringify\<close>\<close>

text \<open>
  \<^verbatim>\<open>res.json(v)\<close> sends \<^verbatim>\<open>JSON.stringify(v)\<close>. A property of an object whose value is
  \<^verbatim>\<open>undefined\<close> or a function is left out of the text; such an element of an array is
  written \<^verbatim>\<open>null\<close>.
\<close>

datatype jsval =
    JUndefined
  | JNull
  | JBool bool
  | JStr string
  | JFunction
  | JArr "jsval list"
  | JObj "(string \<times> jsval) list"

fun serialisable :: "jsval \<Rightarrow> bool" where
  "serialisable JUndefined = False"
| "serialisable JFunction = False"
| "serialisable _ = True"

fun json_stringify :: "jsval \<Rightarrow> jsval" where
  "json_stringify (JObj kvs) =
     JObj (map (\<lambda>(k, v). (k, json_stringify v)) (filter (\<lambda>(k, v). serialisable v) kvs))"
| "json_stringify (JArr vs) =
     JArr (map (\<lambda>v. if serialisable v then json_stringify v else JNull) vs)"
| "json_stringify v = v"

text \<open>The value of property \<open>k\<close> of a JSON object, if it has one.\<close>

fun property :: "string \<Rightarrow> jsval \<Rightarrow> jsval option" where
  "property k (JObj kvs) = map_of kvs k"
| "property k _ = None"

subsection \<open>Strings: \<^verbatim>\<open>trim\<close> and \<^verbatim>\<open>split\<close>\<close>

text \<open>
  The white space and line terminator code points of ECMAScript below 256: TAB, LF, VT,
  FF, CR, SP and NBSP.
\<close>

definition is_space :: "char \<Rightarrow> bool" where
  "is_space c = (of_char c \<in> {9, 10, 11, 12, 13, 32, 160 :: nat})"

definition trim :: "string \<Rightarrow> string" where
  "trim s = rev (dropWhile is_space (rev (dropWhile is_space s)))"

text \<open>\<^verbatim>\<open>s.split(c)\<close> for a one-character separator; \<^verbatim>\<open>"".split(",")\<close> is \<^verbatim>\<open>[""]\<close>.\<close>

fun split_on :: "char \<Rightarrow> string \<Rightarrow> string list" where
  "split_on c [] = [[]]"
| "split_on c (x # xs) =
     (case split_on c xs of
        [] \<Rightarrow> [[x]]
      | p # ps \<Rightarrow> if x = c then [] # p # ps else (x # p) # ps)"

text \<open>\<^verbatim>\<open>pieces.join(c)\<close>, the inverse the pieces of a split are measured against.\<close>

fun join_with :: "char \<Rightarrow> string list \<Rightarrow> string" where
  "join_with c [] = []"
| "join_with c [p] = p"
| "join_with c (p # q # ps) = p @ c # join_with c (q # ps)"

subsection \<open>Arrays: \<^verbatim>\<open>indexOf\<close>, \<^verbatim>\<open>splice\<close>, \<^verbatim>\<open>unshift\<close>\<close>

fun index_from :: "int \<Rightarrow> 'a list \<Rightarrow> 'a \<Rightarrow> int" where
  "index_from i [] x = - 1"
| "index_from i (y # ys) x = (if y = x then i else index_from (i + 1) ys x)"

definition indexOf :: "'a list \<Rightarrow> 'a \<Rightarrow> int" where
  "indexOf xs x = index_from 0 xs x"

text \<open>
  The array after \<^verbatim>\<open>xs.splice(start, deleteCount)\<close>: a negative \<open>start\<close> counts from the
  end of the array, and both numbers are clamped to the array.
\<close>

definition splice :: "int \<Rightarrow> int \<Rightarrow> 'a list \<Rightarrow> 'a list" where
  "splice start deleteCount xs =
     (let len = int (length xs);
          actualStart = (if start < 0 then max (len + start) 0 else min start len);
          actualDeleteCount = min (max deleteCount 0) (len - actualStart)
      in take (nat actualStart) xs @ drop (nat (actualStart + actualDeleteCount)) xs)"

definition unshift :: "'a \<Rightarrow> 'a list \<Rightarrow> 'a list" where
  "unshift x xs = x # xs"

section \<open>Requests, validation and responses\<close>

text \<open>
  A request body is a JSON object whose members are strings; a member that is absent reads
  as \<^verbatim>\<open>undefined\<close> (\<open>None\<close>). A string is truthy when it is not empty.
\<close>

type_synonym body = "string \<rightharpoonup> string"

definition truthy :: "string option \<Rightarrow> bool" where
  "truthy v = (case v of None \<Rightarrow> False | Some s \<Rightarrow> s \<noteq> [])"

text \<open>\<^verbatim>\<open>if (v) fields.k = v\<close>: the member is set only for a truthy value.\<close>

definition supplied :: "string option \<Rightarrow> string option" where
  "supplied v = (if truthy v then v else None)"

subsection \<open>express-validator\<close>

text \<open>
  A validation chain \<^verbatim>\<open>check(field, message)\<close> turns the member into a string
  (\<^verbatim>\<open>undefined\<close> becomes the empty string), runs its validator and records one error,
  the field with the message, when the validator fails. \<^verbatim>\<open>validationResult\<close> collects
  the errors of the chains in their order.
\<close>

record verr =
  err_param :: string
  err_msg :: string

definition toString :: "string option \<Rightarrow> string" where
  "toString v = (case v of None \<Rightarrow> [] | Some s \<Rightarrow> s)"

definition not_isEmpty :: "string \<Rightarrow> bool" where
  "not_isEmpty s = (s \<noteq> [])"

definition isLength_min :: "nat \<Rightarrow> string \<Rightarrow> bool" where
  "isLength_min n s = (n \<le> length s)"

definition check :: "string \<Rightarrow> string \<Rightarrow> (string \<Rightarrow> bool) \<Rightarrow> body \<Rightarrow> verr list" where
  "check field message valid b =
     (if valid (toString (b field)) then []
      else [\<lparr>err_param = field, err_msg = message\<rparr>])"

definition validationResult :: "(body \<Rightarrow> verr list) list \<Rightarrow> body \<Rightarrow> verr list" where
  "validationResult checks b = concat (map (\<lambda>c. c b) checks)"

text \<open>\<^verbatim>\<open>errors.array()\<close>: the array of field/message objects.\<close>

definition errors_array :: "verr list \<Rightarrow> jsval" where
  "errors_array es =
     JArr (map (\<lambda>e. JObj [(''msg'', JStr (err_msg e)), (''param'', JStr (err_param e))]) es)"

text \<open>A JSON value is a structured array of field/message pairs.\<close>

fun is_field_message :: "jsval \<Rightarrow> bool" where
  "is_field_message (JObj [(k1, JStr m), (k2, JStr f)]) = (k1 = ''msg'' \<and> k2 = ''param'')"
| "is_field_message _ = False"

fun is_error_array :: "jsval \<Rightarrow> bool" where
  "is_error_array (JArr vs) = (vs \<noteq> [] \<and> list_all is_field_message vs)"
| "is_error_array _ = False"

section \<open>The document store\<close>

text \<open>
  The models \<^verbatim>\<open>User\<close> and \<^verbatim>\<open>Profile\<close> are declared outside the files at hand; their
  fields are those the handlers read and write. A collection is the list of its documents
  in the store's order, \<^verbatim>\<open>findOne\<close> returns the first document that matches, and the
  store is taken to be reachable: the only errors are the ones the handlers' own data
  cause.
\<close>

record user_doc =
  user_id :: oid
  user_name :: string
  user_email :: string
  user_avatar :: string
  user_password :: string

record experience_entry =
  exp_id :: oid
  exp_title :: "string option"
  exp_company :: "string option"
  exp_location :: "string option"
  exp_from :: "string option"
  exp_to :: "string option"
  exp_current :: "string option"
  exp_description :: "string option"

record education_entry =
  edu_id :: oid
  edu_school :: "string option"
  edu_degree :: "string option"
  edu_fieldOfStudy :: "string option"
  edu_from :: "string option"
  edu_to :: "string option"
  edu_current :: "string option"
  edu_description :: "string option"

record social_links =
  youtube :: "string option"
  twitter :: "string option"
  facebook :: "string option"
  linkedin :: "string option"
  instagram :: "string option"

record profile_doc =
  profile_id :: oid
  profile_user :: oid
  company :: "string option"
  website :: "string option"
  location :: "string option"
  bio :: "string option"
  status :: "string option"
  githubusername :: "string option"
  skills :: "string list"
  social :: social_links
  experience :: "experience_entry list"
  education :: "education_entry list"

record store =
  users :: "user_doc list"
  profiles :: "profile_doc list"

text \<open>
  What the world outside the repository computes: the libraries' functions (the keyed
  signature of \<^verbatim>\<open>jsonwebtoken\<close>, \<^verbatim>\<open>isEmail\<close>, the store's test of an identifier's
  format, \<^verbatim>\<open>gravatar.url\<close> with the handler's fixed options, \<^verbatim>\<open>bcrypt\<close>) and the
  process configuration. They are parameters of the model.
\<close>

record claims =
  claim_user :: oid
  claim_iat :: nat
  claim_exp :: nat

record token =
  tok_claims :: claims
  tok_signature :: string

record env =
  jwtSecret :: string
  hmac :: "string \<Rightarrow> claims \<Rightarrow> string"
  isEmail :: "string \<Rightarrow> bool"
  isObjectId :: "string \<Rightarrow> bool"
  gravatar_url :: "string \<Rightarrow> string"
  genSalt :: "nat \<Rightarrow> string \<Rightarrow> string"
  bcrypt_hash :: "string \<Rightarrow> string \<Rightarrow> string"

text \<open>
  What one request draws from outside: the clock (in seconds), the identifier the driver
  generates for a document created in the request, and the random bytes of the salt.
\<close>

record ctx =
  now :: nat
  new_id :: oid
  random_bytes :: string

datatype error = CastError string | TypeError

fun kind :: "error \<Rightarrow> string option" where
  "kind (CastError k) = Some k"
| "kind TypeError = None"

text \<open>A query on an identifier casts the string first; the cast throws on a malformed one.\<close>

definition castObjectId :: "env \<Rightarrow> string \<Rightarrow> error + oid" where
  "castObjectId e s = (if isObjectId e s then Inr s else Inl (CastError ''ObjectId''))"

text \<open>\<^verbatim>\<open>Profile.findOne({ user: id })\<close>.\<close>

definition Profile_findOne :: "env \<Rightarrow> string \<Rightarrow> store \<Rightarrow> error + profile_doc option" where
  "Profile_findOne e uid st =
     (case castObjectId e uid of
        Inl err \<Rightarrow> Inl err
      | Inr u \<Rightarrow> Inr (find (\<lambda>p. profile_user p = u) (profiles st)))"

text \<open>\<^verbatim>\<open>findOneAndRemove\<close>: the first matching document is removed, if there is one.\<close>

fun removeFirst :: "('a \<Rightarrow> bool) \<Rightarrow> 'a list \<Rightarrow> 'a list" where
  "removeFirst P [] = []"
| "removeFirst P (x # xs) = (if P x then xs else x # removeFirst P xs)"

text \<open>
  \<^verbatim>\<open>findOneAndUpdate\<close>, and \<^verbatim>\<open>save()\<close> of a document that \<^verbatim>\<open>findOne\<close> returned: the
  first matching document is replaced by its update.
\<close>

fun updateFirst :: "('a \<Rightarrow> bool) \<Rightarrow> ('a \<Rightarrow> 'a) \<Rightarrow> 'a list \<Rightarrow> 'a list" where
  "updateFirst P f [] = []"
| "updateFirst P f (x # xs) = (if P x then f x # xs else x # updateFirst P f xs)"

definition Profile_save :: "profile_doc \<Rightarrow> store \<Rightarrow> store" where
  "Profile_save p st =
     st\<lparr>profiles := updateFirst (\<lambda>q. profile_user q = profile_user p) (\<lambda>_. p) (profiles st)\<rparr>"

subsection \<open>Responses\<close>

text \<open>\<^verbatim>\<open>populate("user", ["name", "avatar"])\<close> joins the owner's name and avatar.\<close>

record user_summary =
  sum_id :: oid
  sum_name :: string
  sum_avatar :: string

datatype payload =
    Json jsval
  | Send string
  | ProfileJson profile_doc
  | PopulatedJson profile_doc "user_summary option"
  | TokenJson token

datatype response = Response nat payload

definition res_json :: "nat \<Rightarrow> jsval \<Rightarrow> response" where
  "res_json code v = Response code (Json (json_stringify v))"

definition server_error :: response where
  "server_error = Response 500 (Send ''Server Error'')"

section \<open>Tokens and the authentication middleware\<close>

text \<open>
  A token is read as its decoded parts: the claims and the signature over them.
  \<^verbatim>\<open>jwt.sign(payload, secret, { expiresIn })\<close> stamps the payload with the time of issue
  and the expiry and signs it; \<^verbatim>\<open>jwt.verify(token, secret)\<close> throws when the signature
  is not the secret's over the claims, or when the clock has reached the expiry.
\<close>

datatype jwt_error = JsonWebTokenError | TokenExpiredError

definition jwt_sign :: "env \<Rightarrow> oid \<Rightarrow> string \<Rightarrow> nat \<Rightarrow> nat \<Rightarrow> token" where
  "jwt_sign e uid secret expiresIn t =
     (let c = \<lparr>claim_user = uid, claim_iat = t, claim_exp = t + expiresIn\<rparr>
      in \<lparr>tok_claims = c, tok_signature = hmac e secret c\<rparr>)"

definition jwt_verify :: "env \<Rightarrow> token \<Rightarrow> string \<Rightarrow> nat \<Rightarrow> jwt_error + claims" where
  "jwt_verify e tok secret t =
     (if tok_signature tok \<noteq> hmac e secret (tok_claims tok) then Inl JsonWebTokenError
      else if claim_exp (tok_claims tok) \<le> t then Inl TokenExpiredError
      else Inr (tok_claims tok))"

text \<open>
  \<^verbatim>\<open>server/middleware/auth.js\<close>: the header \<^verbatim>\<open>x-auth-token\<close> is absent (\<open>None\<close>) or
  holds a token. The middleware answers 401 itself, or hands the token's user on
  (\<^verbatim>\<open>req.user = decoded.user; next()\<close>).
\<close>

definition auth :: "env \<Rightarrow> nat \<Rightarrow> token option \<Rightarrow> response + oid" where
  "auth e t header =
     (case header of
        None \<Rightarrow> Inl (res_json 401 (JObj [(''msg'', JStr ''No token, authorization denied'')]))
      | Some tok \<Rightarrow>
          (case jwt_verify e tok (jwtSecret e) t of
             Inr decoded \<Rightarrow> Inr (claim_user decoded)
           | Inl error \<Rightarrow> Inl (res_json 401 (JObj [(''msg'', JStr ''Token is not valid'')]))))"

text \<open>A private route: the handler runs only behind the middleware.\<close>

definition behind_auth ::
  "env \<Rightarrow> ctx \<Rightarrow> token option \<Rightarrow> (oid \<Rightarrow> store \<Rightarrow> response \<times> store) \<Rightarrow> store \<Rightarrow> response \<times> store"
where
  "behind_auth e c header handler st =
     (case auth e (now c) header of
        Inl res \<Rightarrow> (res, st)
      | Inr uid \<Rightarrow> handler uid st)"

section \<open>Registration: \<^verbatim>\<open>POST /users\<close>\<close>

definition register_checks :: "env \<Rightarrow> (body \<Rightarrow> verr list) list" where
  "register_checks e =
     [check ''name'' ''Name is required'' not_isEmpty,
      check ''email'' ''please include valid email'' (isEmail e),
      check ''password'' ''please enter a password with 6 or more charaters'' (isLength_min 6)]"

definition register :: "env \<Rightarrow> ctx \<Rightarrow> body \<Rightarrow> store \<Rightarrow> response \<times> store" where
  "register e c b st =
     (let errors = validationResult (register_checks e) b in
      if errors \<noteq> [] then (res_json 400 (JObj [(''errors'', errors_array errors)]), st)
      else
        let name = toString (b ''name'');
            email = toString (b ''email'');
            password = toString (b ''password'')
        in (case find (\<lambda>u. user_email u = email) (users st) of
              Some user \<Rightarrow>
                (res_json 400 (JObj [(''errors'', JArr [JObj [(''msg'', JStr ''User already exists'')]])]), st)
            | None \<Rightarrow>
                let avatar = gravatar_url e email;
                    salt = genSalt e 10 (random_bytes c);
                    user = \<lparr>user_id = new_id c, user_name = name, user_email = email,
                            user_avatar = avatar, user_password = bcrypt_hash e password salt\<rparr>;
                    st' = st\<lparr>users := users st @ [user]\<rparr>;
                    token = jwt_sign e (user_id user) (jwtSecret e) 360000 (now c)
                in (Response 200 (TokenJson token), st')))"

text \<open>The test route of the same path: the same checks, nothing stored.\<close>

definition users_test :: "env \<Rightarrow> body \<Rightarrow> response" where
  "users_test e b =
     (let errors = validationResult (register_checks e) b in
      if errors \<noteq> [] then res_json 400 (JObj [(''errors'', errors_array errors)])
      else Response 200 (Send ''User Route''))"

text \<open>The answer to a registration whose email a stored user already has.\<close>

definition conflict_response :: response where
  "conflict_response =
     Response 400 (Json (JObj [(''errors'', JArr [JObj [(''msg'', JStr ''User already exists'')]])]))"

section \<open>The profile routes\<close>

subsection \<open>\<^verbatim>\<open>POST /profile\<close>: create or update\<close>

text \<open>
  \<^verbatim>\<open>profileFields\<close>: an object literal that always has \<^verbatim>\<open>user\<close> and \<^verbatim>\<open>social\<close>, and
  each other member only when the handler set it.
\<close>

record profile_fields =
  pf_user :: oid
  pf_company :: "string option"
  pf_website :: "string option"
  pf_location :: "string option"
  pf_bio :: "string option"
  pf_status :: "string option"
  pf_githubusername :: "string option"
  pf_skills :: "string list option"
  pf_social :: social_links

definition build_profileFields :: "oid \<Rightarrow> body \<Rightarrow> profile_fields" where
  "build_profileFields uid b =
     \<lparr>pf_user = uid,
      pf_company = supplied (b ''company''),
      pf_website = supplied (b ''website''),
      pf_location = supplied (b ''location''),
      pf_bio = supplied (b ''bio''),
      pf_status = supplied (b ''status''),
      pf_githubusername = supplied (b ''githubusername''),
      pf_skills =
        (if truthy (b ''skills'')
         then Some (map trim (split_on CHR '','' (toString (b ''skills''))))
         else None),
      pf_social =
        \<lparr>youtube = supplied (b ''youtube''),
         twitter = supplied (b ''twitter''),
         facebook = supplied (b ''facebook''),
         linkedin = supplied (b ''linkedin''),
         instagram = supplied (b ''instagram'')\<rparr>\<rparr>"

text \<open>The members of the update document, in the order the handler sets them.\<close>

definition update_keys :: "profile_fields \<Rightarrow> string list" where
  "update_keys pf =
     [''user'']
     @ (if pf_company pf \<noteq> None then [''company''] else [])
     @ (if pf_website pf \<noteq> None then [''website''] else [])
     @ (if pf_location pf \<noteq> None then [''location''] else [])
     @ (if pf_bio pf \<noteq> None then [''bio''] else [])
     @ (if pf_status pf \<noteq> None then [''status''] else [])
     @ (if pf_githubusername pf \<noteq> None then [''githubusername''] else [])
     @ (if pf_skills pf \<noteq> None then [''skills''] else [])
     @ [''social'']"

text \<open>
  \<^verbatim>\<open>{ $set: profileFields }\<close>: each member of the update document replaces the
  document's field of that name, the embedded \<^verbatim>\<open>social\<close> object as a whole; a field the
  update document does not name is kept.
\<close>

definition keep :: "'a option \<Rightarrow> 'a option \<Rightarrow> 'a option" where
  "keep new old = (case new of None \<Rightarrow> old | Some v \<Rightarrow> Some v)"

definition apply_set :: "profile_fields \<Rightarrow> profile_doc \<Rightarrow> profile_doc" where
  "apply_set pf p =
     p\<lparr>profile_user := pf_user pf,
       company := keep (pf_company pf) (company p),
       website := keep (pf_website pf) (website p),
       location := keep (pf_location pf) (location p),
       bio := keep (pf_bio pf) (bio p),
       status := keep (pf_status pf) (status p),
       githubusername := keep (pf_githubusername pf) (githubusername p),
       skills := (case pf_skills pf of None \<Rightarrow> skills p | Some s \<Rightarrow> s),
       social := pf_social pf\<rparr>"

text \<open>\<^verbatim>\<open>new Profile(profileFields)\<close>: the arrays the object does not name start empty.\<close>

definition new_Profile :: "oid \<Rightarrow> profile_fields \<Rightarrow> profile_doc" where
  "new_Profile i pf =
     \<lparr>profile_id = i, profile_user = pf_user pf,
      company = pf_company pf, website = pf_website pf, location = pf_location pf,
      bio = pf_bio pf, status = pf_status pf, githubusername = pf_githubusername pf,
      skills = (case pf_skills pf of None \<Rightarrow> [] | Some s \<Rightarrow> s),
      social = pf_social pf, experience = [], education = []\<rparr>"

definition profile_checks :: "(body \<Rightarrow> verr list) list" where
  "profile_checks =
     [check ''status'' ''Status is required'' not_isEmpty,
      check ''skills'' ''Skills are required'' not_isEmpty]"

definition post_profile_try :: "env \<Rightarrow> ctx \<Rightarrow> oid \<Rightarrow> body \<Rightarrow> store \<Rightarrow> error + response \<times> store" where
  "post_profile_try e c uid b st =
     (let profileFields = build_profileFields uid b in
      case Profile_findOne e uid st of
        Inl err \<Rightarrow> Inl err
      | Inr (Some profile) \<Rightarrow>
          let profile' = apply_set profileFields profile
          in Inr (Response 200 (ProfileJson profile'),
                  st\<lparr>profiles := updateFirst (\<lambda>p. profile_user p = uid) (\<lambda>_. profile') (profiles st)\<rparr>)
      | Inr None \<Rightarrow>
          let profile = new_Profile (new_id c) profileFields
          in Inr (Response 200 (ProfileJson profile), st\<lparr>profiles := profiles st @ [profile]\<rparr>))"

definition post_profile :: "env \<Rightarrow> ctx \<Rightarrow> oid \<Rightarrow> body \<Rightarrow> store \<Rightarrow> response \<times> store" where
  "post_profile e c uid b st =
     (let errors = validationResult profile_checks b in
      if errors \<noteq> [] then (res_json 400 (JObj [(''errors'', errors_array errors)]), st)
      else
        (case post_profile_try e c uid b st of
           Inr r \<Rightarrow> r
         | Inl error \<Rightarrow> (server_error, st)))"

subsection \<open>\<^verbatim>\<open>GET /profile/user/:user_id\<close>\<close>

definition populate :: "store \<Rightarrow> profile_doc \<Rightarrow> payload" where
  "populate st p =
     PopulatedJson p
       (map_option (\<lambda>u. \<lparr>sum_id = user_id u, sum_name = user_name u, sum_avatar = user_avatar u\<rparr>)
          (find (\<lambda>u. user_id u = profile_user p) (users st)))"

definition profile_not_found :: response where
  "profile_not_found = res_json 400 (JObj [(''msg'', JStr ''Profile Not Found'')])"

definition get_profile_by_user_id :: "env \<Rightarrow> string \<Rightarrow> store \<Rightarrow> response" where
  "get_profile_by_user_id e user_id_param st =
     (case Profile_findOne e user_id_param st of
        Inr None \<Rightarrow> profile_not_found
      | Inr (Some profile) \<Rightarrow> Response 200 (populate st profile)
      | Inl error \<Rightarrow>
          if kind error = Some ''ObjectId'' then profile_not_found else server_error)"

subsection \<open>\<^verbatim>\<open>DELETE /profile\<close>\<close>

definition delete_account_try :: "env \<Rightarrow> oid \<Rightarrow> store \<Rightarrow> error + response \<times> store" where
  "delete_account_try e uid st =
     (case castObjectId e uid of
        Inl err \<Rightarrow> Inl err
      | Inr u \<Rightarrow>
          let st1 = st\<lparr>profiles := removeFirst (\<lambda>p. profile_user p = u) (profiles st)\<rparr>;
              st2 = st1\<lparr>users := removeFirst (\<lambda>x. user_id x = u) (users st1)\<rparr>
          in Inr (res_json 200 (JObj [(''msg'', JStr ''User Deleted'')]), st2))"

definition delete_account :: "env \<Rightarrow> oid \<Rightarrow> store \<Rightarrow> response \<times> store" where
  "delete_account e uid st =
     (case delete_account_try e uid st of
        Inr r \<Rightarrow> r
      | Inl error \<Rightarrow>
          if kind error = Some ''ObjectId'' then (profile_not_found, st) else (server_error, st))"

subsection \<open>\<^verbatim>\<open>PUT /profile/experience\<close> and \<^verbatim>\<open>PUT /profile/education\<close>\<close>

text \<open>
  On a request that fails validation both handlers pass \<^verbatim>\<open>errors.array\<close>, the method
  itself, where the other routes call it.
\<close>

definition experience_checks :: "(body \<Rightarrow> verr list) list" where
  "experience_checks =
     [check ''title'' ''title is required'' not_isEmpty,
      check ''company'' ''company is required'' not_isEmpty,
      check ''from'' ''From date is required'' not_isEmpty]"

definition put_experience_try :: "env \<Rightarrow> ctx \<Rightarrow> oid \<Rightarrow> body \<Rightarrow> store \<Rightarrow> error + response \<times> store" where
  "put_experience_try e c uid b st =
     (let newExp = \<lparr>exp_id = new_id c, exp_title = b ''title'', exp_company = b ''company'',
                    exp_location = b ''location'', exp_from = b ''from'', exp_to = b ''to'',
                    exp_current = b ''current'', exp_description = b ''description''\<rparr>
      in case Profile_findOne e uid st of
           Inl err \<Rightarrow> Inl err
         | Inr None \<Rightarrow> Inl TypeError
         | Inr (Some profile) \<Rightarrow>
             let profile' = profile\<lparr>experience := unshift newExp (experience profile)\<rparr>
             in Inr (Response 200 (ProfileJson profile'), Profile_save profile' st))"

definition put_experience :: "env \<Rightarrow> ctx \<Rightarrow> oid \<Rightarrow> body \<Rightarrow> store \<Rightarrow> response \<times> store" where
  "put_experience e c uid b st =
     (let errors = validationResult experience_checks b in
      if errors \<noteq> [] then (res_json 400 (JObj [(''errors'', JFunction)]), st)
      else
        (case put_experience_try e c uid b st of
           Inr r \<Rightarrow> r
         | Inl error \<Rightarrow> (server_error, st)))"

definition education_checks :: "(body \<Rightarrow> verr list) list" where
  "education_checks =
     [check ''school'' ''school is required'' not_isEmpty,
      check ''degree'' ''degree is required'' not_isEmpty,
      check ''from'' ''From date is required'' not_isEmpty,
      check ''fieldOfStudy'' ''fieldOfStudy'' not_isEmpty]"

definition put_education_try :: "env \<Rightarrow> ctx \<Rightarrow> oid \<Rightarrow> body \<Rightarrow> store \<Rightarrow> error + response \<times> store" where
  "put_education_try e c uid b st =
     (let newEdu = \<lparr>edu_id = new_id c, edu_school = b ''school'', edu_degree = b ''degree'',
                    edu_fieldOfStudy = b ''fieldOfStudy'', edu_from = b ''from'', edu_to = b ''to'',
                    edu_current = b ''current'', edu_description = b ''description''\<rparr>
      in case Profile_findOne e uid st of
           Inl err \<Rightarrow> Inl err
         | Inr None \<Rightarrow> Inl TypeError
         | Inr (Some profile) \<Rightarrow>
             let profile' = profile\<lparr>education := unshift newEdu (education profile)\<rparr>
             in Inr (Response 200 (ProfileJson profile'), Profile_save profile' st))"

definition put_education :: "env \<Rightarrow> ctx \<Rightarrow> oid \<Rightarrow> body \<Rightarrow> store \<Rightarrow> response \<times> store" where
  "put_education e c uid b st =
     (let errors = validationResult education_checks b in
      if errors \<noteq> [] then (res_json 400 (JObj [(''errors'', JFunction)]), st)
      else
        (case put_education_try e c uid b st of
           Inr r \<Rightarrow> r
         | Inl error \<Rightarrow> (server_error, st)))"

subsection \<open>\<^verbatim>\<open>DELETE /profile/experience/:exp_id\<close> and \<^verbatim>\<open>DELETE /profile/education/:edu_id\<close>\<close>

definition delete_experience_try :: "env \<Rightarrow> oid \<Rightarrow> string \<Rightarrow> store \<Rightarrow> error + response \<times> store" where
  "delete_experience_try e uid exp_id_param st =
     (case Profile_findOne e uid st of
        Inl err \<Rightarrow> Inl err
      | Inr None \<Rightarrow> Inl TypeError
      | Inr (Some profile) \<Rightarrow>
          let removeIndex = indexOf (map exp_id (experience profile)) exp_id_param;
              profile' = profile\<lparr>experience := splice removeIndex 1 (experience profile)\<rparr>
          in Inr (Response 200 (ProfileJson profile'), Profile_save profile' st))"

definition delete_experience :: "env \<Rightarrow> oid \<Rightarrow> string \<Rightarrow> store \<Rightarrow> response \<times> store" where
  "delete_experience e uid exp_id_param st =
     (case delete_experience_try e uid exp_id_param st of
        Inr r \<Rightarrow> r
      | Inl error \<Rightarrow> (server_error, st))"

definition delete_education_try :: "env \<Rightarrow> oid \<Rightarrow> string \<Rightarrow> store \<Rightarrow> error + response \<times> store" where
  "delete_education_try e uid edu_id_param st =
     (case Profile_findOne e uid st of
        Inl err \<Rightarrow> Inl err
      | Inr None \<Rightarrow> Inl TypeError
      | Inr (Some profile) \<Rightarrow>
          let removeIndex = indexOf (map edu_id (education profile)) edu_id_param;
              profile' = profile\<lparr>education := splice removeIndex 1 (education profile)\<rparr>
          in Inr (Response 200 (ProfileJson profile'), Profile_save profile' st))"

definition delete_education :: "env \<Rightarrow> oid \<Rightarrow> string \<Rightarrow> store \<Rightarrow> response \<times> store" where
  "delete_education e uid edu_id_param st =
     (case delete_education_try e uid edu_id_param st of
        Inr r \<Rightarrow> r
      | Inl error \<Rightarrow> (server_error, st))"

section \<open>Concrete requests\<close>

text \<open>
  One instance of the parameters, and a store with one user who owns a profile with two
  experience and two education entries. The identifier format of the instance is the
  store's printed one: 24 hexadecimal digits.
\<close>

definition ex_env :: env where
  "ex_env =
     \<lparr>jwtSecret = ''mysecrettoken'',
      hmac = (\<lambda>k c. k @ claim_user c),
      isEmail = (\<lambda>s. CHR ''@'' \<in> set s),
      isObjectId = (\<lambda>s. length s = 24 \<and> list_all (\<lambda>c. c \<in> set ''0123456789abcdef'') s),
      gravatar_url = (\<lambda>m. ''//www.gravatar.com/avatar/'' @ m @ ''?s=200&r=pg&d=mm''),
      genSalt = (\<lambda>n r. r),
      bcrypt_hash = (\<lambda>p salt. salt @ p)\<rparr>"

definition ex_ctx :: ctx where
  "ex_ctx = \<lparr>now = 1000, new_id = ''5f1a000000000000000000c1'', random_bytes = ''salt''\<rparr>"

definition ex_uid :: oid where
  "ex_uid = ''5f1a000000000000000000a1''"

definition ex_user :: user_doc where
  "ex_user =
     \<lparr>user_id = ex_uid, user_name = ''Ann'', user_email = ''ann@example.com'',
      user_avatar = ''//www.gravatar.com/avatar/ann'', user_password = ''hashed''\<rparr>"

definition ex_exp1 :: experience_entry where
  "ex_exp1 =
     \<lparr>exp_id = ''5f1a000000000000000000e1'', exp_title = Some ''Engineer'',
      exp_company = Some ''Acme'', exp_location = None, exp_from = Some ''2019-01-01'',
      exp_to = None, exp_current = Some ''true'', exp_description = None\<rparr>"

definition ex_exp2 :: experience_entry where
  "ex_exp2 =
     \<lparr>exp_id = ''5f1a000000000000000000e2'', exp_title = Some ''Intern'',
      exp_company = Some ''Initech'', exp_location = None, exp_from = Some ''2017-06-01'',
      exp_to = Some ''2018-06-01'', exp_current = None, exp_description = None\<rparr>"

definition ex_edu1 :: education_entry where
  "ex_edu1 =
     \<lparr>edu_id = ''5f1a000000000000000000d1'', edu_school = Some ''MIT'',
      edu_degree = Some ''MSc'', edu_fieldOfStudy = Some ''CS'', edu_from = Some ''2015-09-01'',
      edu_to = None, edu_current = None, edu_description = None\<rparr>"

definition ex_edu2 :: education_entry where
  "ex_edu2 =
     \<lparr>edu_id = ''5f1a000000000000000000d2'', edu_school = Some ''ETH'',
      edu_degree = Some ''BSc'', edu_fieldOfStudy = Some ''Maths'', edu_from = Some ''2012-09-01'',
      edu_to = None, edu_current = None, edu_description = None\<rparr>"

definition ex_profile :: profile_doc where
  "ex_profile =
     \<lparr>profile_id = ''5f1a000000000000000000b1'', profile_user = ex_uid,
      company = Some ''Acme'', website = None, location = Some ''Boston'', bio = None,
      status = Some ''Developer'', githubusername = None, skills = [''node''],
      social = \<lparr>youtube = Some ''https://youtube.com/ann'', twitter = None, facebook = None,
                 linkedin = None, instagram = None\<rparr>,
      experience = [ex_exp1, ex_exp2], education = [ex_edu1, ex_edu2]\<rparr>"

definition ex_store :: store where
  "ex_store = \<lparr>users = [ex_user], profiles = [ex_profile]\<rparr>"

text \<open>An identifier of the store's format that no entry of the profile has.\<close>

definition ex_other_id :: oid where
  "ex_other_id = ''5f1a000000000000000000ff''"

text \<open>A token signed for an identifier that owns nothing in the store.\<close>

definition ex_stranger_token :: token where
  "ex_stranger_token = jwt_sign ex_env ex_other_id (jwtSecret ex_env) 360000 0"

text \<open>Ann's own token, and a token signed with the secret for a malformed identifier.\<close>

definition ex_ann_token :: token where
  "ex_ann_token = jwt_sign ex_env ex_uid (jwtSecret ex_env) 360000 0"

definition ex_malformed_token :: token where
  "ex_malformed_token = jwt_sign ex_env ''not-an-id'' (jwtSecret ex_env) 360000 0"

text \<open>A second user with a profile, stored before Ann's documents.\<close>

definition ex_bob :: user_doc where
  "ex_bob =
     \<lparr>user_id = ''5f1a000000000000000000a2'', user_name = ''Bob'',
      user_email = ''bob@example.com'', user_avatar = ''//www.gravatar.com/avatar/bob'',
      user_password = ''hashed''\<rparr>"

definition ex_bob_profile :: profile_doc where
  "ex_bob_profile =
     \<lparr>profile_id = ''5f1a000000000000000000b2'', profile_user = ''5f1a000000000000000000a2'',
      company = None, website = None, location = None, bio = None,
      status = Some ''Designer'', githubusername = None, skills = [''css''],
      social = \<lparr>youtube = None, twitter = None, facebook = None, linkedin = None,
                 instagram = None\<rparr>,
      experience = [], education = []\<rparr>"

definition ex_store_two :: store where
  "ex_store_two = \<lparr>users = [ex_bob, ex_user], profiles = [ex_bob_profile, ex_profile]\<rparr>"

text \<open>The same store when Ann has no profile, and when only her profile is left.\<close>

definition ex_store_no_profile :: store where
  "ex_store_no_profile = \<lparr>users = [ex_bob, ex_user], profiles = [ex_bob_profile]\<rparr>"

definition ex_store_no_user :: store where
  "ex_store_no_user = \<lparr>users = [ex_bob], profiles = [ex_bob_profile, ex_profile]\<rparr>"

text \<open>Request bodies.\<close>

definition ex_register_body :: body where
  "ex_register_body =
     [''name'' \<mapsto> ''Bob'', ''email'' \<mapsto> ''bob@example.com'', ''password'' \<mapsto> ''hunter22'']"

definition ex_duplicate_body :: body where
  "ex_duplicate_body =
     [''name'' \<mapsto> '''', ''email'' \<mapsto> ''ann@example.com'', ''password'' \<mapsto> ''hunter22'']"

definition ex_retry_body :: body where
  "ex_retry_body =
     [''name'' \<mapsto> ''Ann'', ''email'' \<mapsto> ''ann@example.com'', ''password'' \<mapsto> ''hunter22'']"

definition ex_skills_body :: body where
  "ex_skills_body = [''status'' \<mapsto> ''Developer'', ''skills'' \<mapsto> ''node, react , css'']"

definition ex_update_body :: body where
  "ex_update_body =
     [''status'' \<mapsto> ''Senior Developer'', ''skills'' \<mapsto> ''node,react'',
      ''twitter'' \<mapsto> ''https://twitter.com/ann'']"

definition ex_experience_body :: body where
  "ex_experience_body =
     [''title'' \<mapsto> ''Lead'', ''company'' \<mapsto> ''Globex'', ''from'' \<mapsto> ''2021-03-01'']"

definition ex_education_body :: body where
  "ex_education_body =
     [''school'' \<mapsto> ''Yale'', ''degree'' \<mapsto> ''PhD'', ''fieldOfStudy'' \<mapsto> ''Logic'',
      ''from'' \<mapsto> ''2021-03-01'']"

section \<open>Facts about the built-ins\<close>

lemmas ex_defs = ex_env_def ex_ctx_def ex_uid_def ex_user_def ex_exp1_def ex_exp2_def
  ex_edu1_def ex_edu2_def ex_profile_def ex_store_def ex_other_id_def

lemma index_from_missing: "x \<notin> set xs \<Longrightarrow> index_from i xs x = - 1"
  by (induction xs arbitrary: i) auto

lemma index_from_first:
  "x \<notin> set pre \<Longrightarrow> index_from i (pre @ x # post) x = i + int (length pre)"
  by (induction pre arbitrary: i) auto

lemma indexOf_missing: "x \<notin> set xs \<Longrightarrow> indexOf xs x = - 1"
  by (simp add: indexOf_def index_from_missing)

lemma indexOf_first: "x \<notin> set pre \<Longrightarrow> indexOf (pre @ x # post) x = int (length pre)"
  by (simp add: indexOf_def index_from_first)

lemma splice_at: "splice (int (length pre)) 1 (pre @ x # post) = pre @ post"
  by (simp add: splice_def Let_def nat_add_distrib)

lemma splice_minus_one: "splice (- 1) 1 xs = butlast xs"
proof (cases xs rule: rev_cases)
  case Nil
  then show ?thesis by (simp add: splice_def Let_def)
next
  case (snoc ys y)
  then show ?thesis by (simp add: splice_def Let_def)
qed

lemma split_on_not_Nil: "split_on c s \<noteq> []"
  by (induction s) (auto split: list.splits)

lemma join_with_Cons_Cons: "join_with c ((x # p) # ps) = x # join_with c (p # ps)"
  by (cases ps) auto

lemma join_split_on: "join_with c (split_on c s) = s"
proof (induction s)
  case Nil
  then show ?case by simp
next
  case (Cons x xs)
  then show ?case
    by (cases "split_on c xs") (auto simp: split_on_not_Nil join_with_Cons_Cons)
qed

lemma split_on_pieces: "p \<in> set (split_on c s) \<Longrightarrow> c \<notin> set p"
  by (induction s arbitrary: p) (auto simp: split_on_not_Nil split: list.splits if_splits)

lemma trim_decompose:
  "\<exists>l r. s = l @ trim s @ r \<and> list_all is_space l \<and> list_all is_space r"
proof -
  let ?l = "takeWhile is_space s"
  let ?m = "dropWhile is_space s"
  let ?r = "rev (takeWhile is_space (rev ?m))"
  have "s = ?l @ ?m" by simp
  moreover have "?m = trim s @ ?r"
    unfolding trim_def
    by (metis rev_append rev_rev_ident takeWhile_dropWhile_id)
  moreover have "list_all is_space ?l"
    by (simp add: list_all_iff) (meson set_takeWhileD)
  moreover have "list_all is_space ?r"
    by (simp add: list_all_iff) (meson set_takeWhileD)
  ultimately show ?thesis by metis
qed

lemma trim_ends:
  "trim s = [] \<or> (\<not> is_space (hd (trim s)) \<and> \<not> is_space (last (trim s)))"
proof (cases "trim s = []")
  case True
  then show ?thesis by simp
next
  case False
  let ?m = "dropWhile is_space s"
  let ?t = "dropWhile is_space (rev ?m)"
  have t: "trim s = rev ?t" by (simp add: trim_def)
  with False have ne: "?t \<noteq> []" by simp
  then have "\<not> is_space (hd ?t)" by (rule hd_dropWhile)
  then have l: "\<not> is_space (last (trim s))" using ne by (simp add: t last_rev)
  have "?m = [] \<Longrightarrow> ?t = []" by (simp only: rev.simps dropWhile.simps)
  with ne have mne: "?m \<noteq> []" by blast
  then have hm: "\<not> is_space (hd ?m)" by (rule hd_dropWhile)
  have "hd (trim s) = last ?t" using ne by (simp add: t hd_rev)
  also have "\<dots> = last (rev ?m)"
    using ne by (metis append_Nil2 last_appendR takeWhile_dropWhile_id)
  also have "\<dots> = hd ?m" using mne by (simp add: last_rev)
  finally show ?thesis using hm l by simp
qed

section \<open>Facts about the store's operations\<close>

lemma find_None_iff_set: "find P xs = None \<longleftrightarrow> (\<forall>x\<in>set xs. \<not> P x)"
  by (induction xs) auto

lemma find_updateFirst:
  "find P xs = Some x \<Longrightarrow> P (f x) \<Longrightarrow> find P (updateFirst P f xs) = Some (f x)"
  by (induction xs) (auto split: if_splits)

lemma find_append_one:
  "find P xs = None \<Longrightarrow> find P (xs @ [y]) = (if P y then Some y else None)"
  by (induction xs) (auto split: if_splits)

lemma removeFirst_none: "find P xs = None \<Longrightarrow> removeFirst P xs = xs"
  by (induction xs) (auto split: if_splits)

lemma removeFirst_filter: "filter (\<lambda>x. \<not> P x) (removeFirst P xs) = filter (\<lambda>x. \<not> P x) xs"
  by (induction xs) auto

lemma removeFirst_some:
  "find P xs = Some x \<Longrightarrow>
   \<exists>pre post. xs = pre @ x # post \<and> find P pre = None \<and> removeFirst P xs = pre @ post"
proof (induction xs)
  case Nil
  then show ?case by simp
next
  case (Cons y ys)
  show ?case
  proof (cases "P y")
    case True
    with Cons.prems have "y = x" by simp
    with True show ?thesis by (intro exI [of _ "[]"] exI [of _ ys]) simp
  next
    case False
    with Cons.prems have "find P ys = Some x" by simp
    from Cons.IH [OF this] obtain pre post
      where "ys = pre @ x # post" "find P pre = None" "removeFirst P ys = pre @ post"
      by blast
    with False show ?thesis by (intro exI [of _ "y # pre"] exI [of _ post]) simp
  qed
qed

section \<open>Deleting an experience or education entry\<close>

text \<open>
  When the identifier is the one of an entry, the first such entry is removed and the
  others keep their order.
\<close>

lemma delete_experience_found:
  assumes "isObjectId e uid"
    and "find (\<lambda>p. profile_user p = uid) (profiles st) = Some p"
    and "experience p = pre @ x # post"
    and "exp_id x = i"
    and "i \<notin> exp_id ` set pre"
  shows "delete_experience e uid i st =
           (Response 200 (ProfileJson (p\<lparr>experience := pre @ post\<rparr>)),
            Profile_save (p\<lparr>experience := pre @ post\<rparr>) st)"
proof -
  have "indexOf (map exp_id (experience p)) i = int (length (map exp_id pre))"
    using assms(3-5) indexOf_first [of i "map exp_id pre" "map exp_id post"] by simp
  then have "splice (indexOf (map exp_id (experience p)) i) 1 (experience p) = pre @ post"
    using assms(3) splice_at [of pre x post] by simp
  then show ?thesis
    using assms(1,2)
    by (simp add: delete_experience_def delete_experience_try_def Profile_findOne_def
        castObjectId_def Let_def)
qed

text \<open>
  When no entry has the identifier, \<^verbatim>\<open>indexOf\<close> gives \<open>-1\<close> and \<^verbatim>\<open>splice(-1, 1)\<close>
  removes the last entry.
\<close>

lemma delete_experience_missing:
  assumes "isObjectId e uid"
    and "find (\<lambda>p. profile_user p = uid) (profiles st) = Some p"
    and "i \<notin> exp_id ` set (experience p)"
  shows "delete_experience e uid i st =
           (Response 200 (ProfileJson (p\<lparr>experience := butlast (experience p)\<rparr>)),
            Profile_save (p\<lparr>experience := butlast (experience p)\<rparr>) st)"
proof -
  have "indexOf (map exp_id (experience p)) i = - 1"
    using assms(3) by (simp add: indexOf_missing)
  then show ?thesis
    using assms(1,2)
    by (simp add: delete_experience_def delete_experience_try_def Profile_findOne_def
        castObjectId_def Let_def splice_minus_one)
qed

lemma delete_education_missing:
  assumes "isObjectId e uid"
    and "find (\<lambda>p. profile_user p = uid) (profiles st) = Some p"
    and "i \<notin> edu_id ` set (education p)"
  shows "delete_education e uid i st =
           (Response 200 (ProfileJson (p\<lparr>education := butlast (education p)\<rparr>)),
            Profile_save (p\<lparr>education := butlast (education p)\<rparr>) st)"
proof -
  have "indexOf (map edu_id (education p)) i = - 1"
    using assms(3) by (simp add: indexOf_missing)
  then show ?thesis
    using assms(1,2)
    by (simp add: delete_education_def delete_education_try_def Profile_findOne_def
        castObjectId_def Let_def splice_minus_one)
qed

text \<open>
  C1. Deleting by an identifier that matches no entry is claimed to leave the sequence
  unchanged. On a profile with the entries \<open>ex_exp1\<close>, \<open>ex_exp2\<close> (and \<open>ex_edu1\<close>,
  \<open>ex_edu2\<close>) and an identifier that none of them has, the index is \<open>-1\<close>, and both
  handlers answer 200 and store the profile without its last entry.
\<close>

theorem delete_unknown_id_removes_last_entry:
  "indexOf (map exp_id (experience ex_profile)) ex_other_id = - 1 \<and>
   delete_experience ex_env ex_uid ex_other_id ex_store =
     (Response 200 (ProfileJson (ex_profile\<lparr>experience := [ex_exp1]\<rparr>)),
      ex_store\<lparr>profiles := [ex_profile\<lparr>experience := [ex_exp1]\<rparr>]\<rparr>) \<and>
   indexOf (map edu_id (education ex_profile)) ex_other_id = - 1 \<and>
   delete_education ex_env ex_uid ex_other_id ex_store =
     (Response 200 (ProfileJson (ex_profile\<lparr>education := [ex_edu1]\<rparr>)),
      ex_store\<lparr>profiles := [ex_profile\<lparr>education := [ex_edu1]\<rparr>]\<rparr>)"
  by (simp add: delete_experience_def delete_experience_try_def delete_education_def
      delete_education_try_def Profile_findOne_def castObjectId_def Profile_save_def
      indexOf_def splice_def Let_def ex_defs)

section \<open>Validation errors\<close>

lemma validation_errors_array:
  "es \<noteq> [] \<Longrightarrow> is_error_array (json_stringify (errors_array es))"
  by (simp add: errors_array_def list_all_iff comp_def)

text \<open>Registration and create-or-update answer 400 with the array of errors.\<close>

lemma register_validation_response:
  assumes "validationResult (register_checks e) b \<noteq> []"
  shows "\<exists>v. register e c b st = (Response 400 (Json (JObj [(''errors'', v)])), st) \<and>
              is_error_array v"
  using assms validation_errors_array [OF assms]
  by (simp add: register_def Let_def res_json_def errors_array_def)

lemma post_profile_validation_response:
  assumes "validationResult profile_checks b \<noteq> []"
  shows "\<exists>v. post_profile e c uid b st = (Response 400 (Json (JObj [(''errors'', v)])), st) \<and>
              is_error_array v"
  using assms validation_errors_array [OF assms]
  by (simp add: post_profile_def Let_def res_json_def errors_array_def)

text \<open>
  C2. A request that fails validation is claimed to get status 400 with the array of
  field/message pairs in its body. Add-experience and add-education, on a body without the
  required fields, answer 400 with the empty object: the \<^verbatim>\<open>errors\<close> property holds the
  method \<^verbatim>\<open>errors.array\<close> itself, which \<^verbatim>\<open>JSON.stringify\<close> leaves out.
\<close>

theorem add_entry_validation_response_has_no_errors:
  "put_experience e c uid Map.empty st = (Response 400 (Json (JObj [])), st) \<and>
   put_education e c uid Map.empty st = (Response 400 (Json (JObj [])), st) \<and>
   property ''errors'' (JObj []) = None"
  by (simp add: put_experience_def put_education_def experience_checks_def education_checks_def
      validationResult_def check_def toString_def not_isEmpty_def res_json_def Let_def)

section \<open>Create or update: the update document\<close>

text \<open>
  A field outside \<^verbatim>\<open>social\<close> that the request leaves out is not in the update document
  and keeps its value; the arrays are never in it.
\<close>

lemma omitted_fields_kept:
  "b ''company'' = None \<Longrightarrow> company (apply_set (build_profileFields uid b) p) = company p"
  "b ''website'' = None \<Longrightarrow> website (apply_set (build_profileFields uid b) p) = website p"
  "b ''location'' = None \<Longrightarrow> location (apply_set (build_profileFields uid b) p) = location p"
  "b ''bio'' = None \<Longrightarrow> bio (apply_set (build_profileFields uid b) p) = bio p"
  "b ''githubusername'' = None \<Longrightarrow>
     githubusername (apply_set (build_profileFields uid b) p) = githubusername p"
  "experience (apply_set (build_profileFields uid b) p) = experience p"
  "education (apply_set (build_profileFields uid b) p) = education p"
  by (simp_all add: apply_set_def build_profileFields_def supplied_def truthy_def keep_def)

text \<open>The \<^verbatim>\<open>social\<close> object of the updated profile holds the request's links and no other.\<close>

lemma social_replaced:
  "social (apply_set (build_profileFields uid b) p) =
     \<lparr>youtube = supplied (b ''youtube''), twitter = supplied (b ''twitter''),
      facebook = supplied (b ''facebook''), linkedin = supplied (b ''linkedin''),
      instagram = supplied (b ''instagram'')\<rparr>"
  by (simp add: apply_set_def build_profileFields_def)

text \<open>
  C3. A field that the request does not supply is claimed to keep its value, the social
  links included, and the update document to hold the supplied fields only. The stored
  profile has a youtube link; the request supplies status, skills and a twitter link. The
  update document has the member \<^verbatim>\<open>social\<close> (and \<^verbatim>\<open>user\<close>), and the updated profile has
  lost the youtube link, while company and location, also left out, are kept.
\<close>

theorem partial_update_drops_social_links:
  "youtube (social ex_profile) = Some ''https://youtube.com/ann'' \<and>
   ex_update_body ''youtube'' = None \<and>
   update_keys (build_profileFields ex_uid ex_update_body)
     = [''user'', ''status'', ''skills'', ''social''] \<and>
   post_profile ex_env ex_ctx ex_uid ex_update_body ex_store =
     (Response 200 (ProfileJson (ex_profile
        \<lparr>status := Some ''Senior Developer'', skills := [''node'', ''react''],
         social := \<lparr>youtube = None, twitter = Some ''https://twitter.com/ann'', facebook = None,
                    linkedin = None, instagram = None\<rparr>\<rparr>)),
      ex_store\<lparr>profiles := [ex_profile
        \<lparr>status := Some ''Senior Developer'', skills := [''node'', ''react''],
         social := \<lparr>youtube = None, twitter = Some ''https://twitter.com/ann'', facebook = None,
                    linkedin = None, instagram = None\<rparr>\<rparr>]\<rparr>)"
  by (simp add: post_profile_def post_profile_try_def validationResult_def profile_checks_def
      check_def toString_def not_isEmpty_def Profile_findOne_def castObjectId_def
      build_profileFields_def update_keys_def apply_set_def keep_def supplied_def truthy_def
      trim_def is_space_def ex_update_body_def ex_defs Let_def)

section \<open>Registration and the token\<close>

text \<open>
  C4. A registration that passes validation with an email no stored user has answers 200
  with a token and stores the new user. The token's claims are the new user's identifier,
  the time of issue and the expiry 100 hours (360000 seconds) later, signed with the
  configured secret. Before the expiry the middleware hands on that identifier; a token
  whose signature is not the secret's over its claims is answered 401 at any time.
\<close>

theorem registration_token_resolves_to_user:
  assumes "validationResult (register_checks e) b = []"
    and "find (\<lambda>u. user_email u = toString (b ''email'')) (users st) = None"
  shows "\<exists>tok u.
           register e c b st = (Response 200 (TokenJson tok), st\<lparr>users := users st @ [u]\<rparr>) \<and>
           user_id u = new_id c \<and> user_email u = toString (b ''email'') \<and>
           tok_claims tok
             = \<lparr>claim_user = user_id u, claim_iat = now c, claim_exp = now c + 100 * 3600\<rparr> \<and>
           tok_signature tok = hmac e (jwtSecret e) (tok_claims tok) \<and>
           (\<forall>t. t < now c + 100 * 3600 \<longrightarrow> auth e t (Some tok) = Inr (user_id u)) \<and>
           (\<forall>t tok'. tok_signature tok' \<noteq> hmac e (jwtSecret e) (tok_claims tok') \<longrightarrow>
              auth e t (Some tok')
                = Inl (Response 401 (Json (JObj [(''msg'', JStr ''Token is not valid'')]))))"
proof -
  let ?u = "\<lparr>user_id = new_id c, user_name = toString (b ''name''),
             user_email = toString (b ''email''),
             user_avatar = gravatar_url e (toString (b ''email'')),
             user_password = bcrypt_hash e (toString (b ''password'')) (genSalt e 10 (random_bytes c))\<rparr>"
  let ?tok = "jwt_sign e (new_id c) (jwtSecret e) 360000 (now c)"
  have r: "register e c b st = (Response 200 (TokenJson ?tok), st\<lparr>users := users st @ [?u]\<rparr>)"
    using assms by (simp add: register_def Let_def)
  have c: "tok_claims ?tok
      = \<lparr>claim_user = new_id c, claim_iat = now c, claim_exp = now c + 100 * 3600\<rparr>"
    by (simp add: jwt_sign_def Let_def)
  have s: "tok_signature ?tok = hmac e (jwtSecret e) (tok_claims ?tok)"
    by (simp add: jwt_sign_def Let_def)
  have ok: "\<forall>t. t < now c + 100 * 3600 \<longrightarrow> auth e t (Some ?tok) = Inr (new_id c)"
    using s c by (simp add: auth_def jwt_verify_def)
  have bad: "\<forall>t tok'. tok_signature tok' \<noteq> hmac e (jwtSecret e) (tok_claims tok') \<longrightarrow>
      auth e t (Some tok') = Inl (Response 401 (Json (JObj [(''msg'', JStr ''Token is not valid'')])))"
    by (simp add: auth_def jwt_verify_def res_json_def)
  show ?thesis
    using r c s ok bad by (intro exI [of _ ?tok] exI [of _ ?u]) simp
qed

theorem registration_token_resolves_to_user_witness:
  "validationResult (register_checks ex_env) ex_register_body = [] \<and>
   find (\<lambda>u. user_email u = toString (ex_register_body ''email'')) (users ex_store) = None \<and>
   (\<exists>tok. fst (register ex_env ex_ctx ex_register_body ex_store) = Response 200 (TokenJson tok) \<and>
          claim_user (tok_claims tok) = new_id ex_ctx \<and>
          auth ex_env (now ex_ctx + 359999) (Some tok) = Inr (new_id ex_ctx) \<and>
          auth ex_env (now ex_ctx + 359999) (Some (tok\<lparr>tok_signature := ''forged''\<rparr>))
            = Inl (Response 401 (Json (JObj [(''msg'', JStr ''Token is not valid'')]))))"
proof -
  have v: "validationResult (register_checks ex_env) ex_register_body = []"
    by (simp add: validationResult_def register_checks_def check_def toString_def
        not_isEmpty_def isLength_min_def ex_register_body_def ex_env_def)
  have f: "find (\<lambda>u. user_email u = toString (ex_register_body ''email'')) (users ex_store) = None"
    by (simp add: ex_defs ex_register_body_def toString_def)
  from registration_token_resolves_to_user [OF v f, of ex_ctx]
  obtain tok u where
    r: "register ex_env ex_ctx ex_register_body ex_store
          = (Response 200 (TokenJson tok), ex_store\<lparr>users := users ex_store @ [u]\<rparr>)"
    and i: "user_id u = new_id ex_ctx"
    and c: "tok_claims tok
          = \<lparr>claim_user = user_id u, claim_iat = now ex_ctx, claim_exp = now ex_ctx + 100 * 3600\<rparr>"
    and ok: "\<forall>t. t < now ex_ctx + 100 * 3600 \<longrightarrow> auth ex_env t (Some tok) = Inr (user_id u)"
    and bad: "\<forall>t tok'. tok_signature tok' \<noteq> hmac ex_env (jwtSecret ex_env) (tok_claims tok') \<longrightarrow>
        auth ex_env t (Some tok')
          = Inl (Response 401 (Json (JObj [(''msg'', JStr ''Token is not valid'')])))"
    by blast
  have forged: "tok_signature (tok\<lparr>tok_signature := ''forged''\<rparr>)
      \<noteq> hmac ex_env (jwtSecret ex_env) (tok_claims (tok\<lparr>tok_signature := ''forged''\<rparr>))"
    by (simp add: ex_env_def)
  have "auth ex_env (now ex_ctx + 359999) (Some tok) = Inr (new_id ex_ctx)"
    using ok i by simp
  moreover have "auth ex_env (now ex_ctx + 359999) (Some (tok\<lparr>tok_signature := ''forged''\<rparr>))
      = Inl (Response 401 (Json (JObj [(''msg'', JStr ''Token is not valid'')])))"
    using bad forged by blast
  ultimately show ?thesis using v f r i c by auto
qed

text \<open>
  C6, as stated: every registration whose email a stored user has gets the conflict
  answer. The request below has the email of the stored user and an empty name; validation
  runs first and the answer is the validation error for the name.
\<close>

theorem duplicate_email_invalid_request_counterexample:
  "ex_user \<in> set (users ex_store) \<and>
   user_email ex_user = toString (ex_duplicate_body ''email'') \<and>
   register ex_env ex_ctx ex_duplicate_body ex_store
     = (Response 400 (Json (JObj [(''errors'',
          JArr [JObj [(''msg'', JStr ''Name is required''), (''param'', JStr ''name'')]])])),
        ex_store) \<and>
   fst (register ex_env ex_ctx ex_duplicate_body ex_store) \<noteq> conflict_response"
  by (simp add: register_def validationResult_def register_checks_def check_def toString_def
      not_isEmpty_def isLength_min_def ex_duplicate_body_def ex_defs res_json_def errors_array_def
      conflict_response_def Let_def)

text \<open>
  C6, amended. A registration whose email a stored user has leaves the store as it is,
  so no second user with that email is created; when the request passes validation the
  answer is the conflict error, 400 with the message "User already exists".
\<close>

theorem duplicate_email_conflict:
  assumes "u \<in> set (users st)"
    and "user_email u = toString (b ''email'')"
  shows "snd (register e c b st) = st \<and>
         (validationResult (register_checks e) b = [] \<longrightarrow>
            fst (register e c b st) = conflict_response)"
proof -
  have "find (\<lambda>u. user_email u = toString (b ''email'')) (users st) \<noteq> None"
    using assms by (auto simp: find_None_iff_set)
  then obtain v where "find (\<lambda>u. user_email u = toString (b ''email'')) (users st) = Some v"
    by blast
  then show ?thesis
    by (simp add: register_def Let_def res_json_def conflict_response_def)
qed

theorem duplicate_email_conflict_witness:
  "ex_user \<in> set (users ex_store) \<and> user_email ex_user = toString (ex_retry_body ''email'') \<and>
   validationResult (register_checks ex_env) ex_retry_body = [] \<and>
   register ex_env ex_ctx ex_retry_body ex_store = (conflict_response, ex_store)"
proof -
  have a: "ex_user \<in> set (users ex_store)" by (simp add: ex_store_def)
  have b: "user_email ex_user = toString (ex_retry_body ''email'')"
    by (simp add: ex_user_def ex_retry_body_def toString_def)
  have v: "validationResult (register_checks ex_env) ex_retry_body = []"
    by (simp add: validationResult_def register_checks_def check_def toString_def
        not_isEmpty_def isLength_min_def ex_retry_body_def ex_env_def)
  show ?thesis
    using duplicate_email_conflict [where u = ex_user and st = ex_store and b = ex_retry_body
        and e = ex_env and c = ex_ctx] a b v
    by (simp add: prod_eq_iff)
qed

section \<open>Adding an experience or education entry\<close>

text \<open>
  C7, as stated: every request that passes validation has its entry inserted and gets the
  updated profile. The caller below owns no profile; \<^verbatim>\<open>findOne\<close> gives \<^verbatim>\<open>null\<close>, reading
  its array throws, and the answer is 500 with nothing stored.
\<close>

theorem add_entry_without_profile_counterexample:
  "validationResult experience_checks ex_experience_body = [] \<and>
   isObjectId ex_env ex_other_id \<and>
   put_experience ex_env ex_ctx ex_other_id ex_experience_body ex_store
     = (Response 500 (Send ''Server Error''), ex_store) \<and>
   validationResult education_checks ex_education_body = [] \<and>
   put_education ex_env ex_ctx ex_other_id ex_education_body ex_store
     = (Response 500 (Send ''Server Error''), ex_store)"
  by (simp add: put_experience_def put_experience_try_def put_education_def put_education_try_def
      validationResult_def experience_checks_def education_checks_def check_def toString_def
      not_isEmpty_def Profile_findOne_def castObjectId_def server_error_def
      ex_experience_body_def ex_education_body_def ex_defs Let_def)

text \<open>
  C7, amended. For a caller who owns a profile, an add-experience (add-education) request
  that passes validation answers 200 with the updated profile and stores it; the new
  entry, made of the request's fields, is at index 0 of the experience (education)
  sequence, and the entry that was at index \<open>i\<close> is at index \<open>i + 1\<close>.
\<close>

theorem add_entry_inserted_at_front:
  assumes "isObjectId e uid"
    and "find (\<lambda>q. profile_user q = uid) (profiles st) = Some p"
  shows "(validationResult experience_checks b = [] \<longrightarrow>
           (\<exists>newExp p'.
              put_experience e c uid b st
                = (Response 200 (ProfileJson p'),
                   st\<lparr>profiles := updateFirst (\<lambda>q. profile_user q = uid) (\<lambda>_. p') (profiles st)\<rparr>) \<and>
              p' = p\<lparr>experience := newExp # experience p\<rparr> \<and>
              find (\<lambda>q. profile_user q = uid)
                (updateFirst (\<lambda>q. profile_user q = uid) (\<lambda>_. p') (profiles st)) = Some p' \<and>
              exp_title newExp = b ''title'' \<and> exp_company newExp = b ''company'' \<and>
              exp_location newExp = b ''location'' \<and> exp_from newExp = b ''from'' \<and>
              exp_to newExp = b ''to'' \<and> exp_current newExp = b ''current'' \<and>
              exp_description newExp = b ''description'' \<and>
              experience p' ! 0 = newExp \<and>
              length (experience p') = Suc (length (experience p)) \<and>
              (\<forall>i < length (experience p). experience p' ! Suc i = experience p ! i))) \<and>
         (validationResult education_checks b = [] \<longrightarrow>
           (\<exists>newEdu p'.
              put_education e c uid b st
                = (Response 200 (ProfileJson p'),
                   st\<lparr>profiles := updateFirst (\<lambda>q. profile_user q = uid) (\<lambda>_. p') (profiles st)\<rparr>) \<and>
              p' = p\<lparr>education := newEdu # education p\<rparr> \<and>
              find (\<lambda>q. profile_user q = uid)
                (updateFirst (\<lambda>q. profile_user q = uid) (\<lambda>_. p') (profiles st)) = Some p' \<and>
              edu_school newEdu = b ''school'' \<and> edu_degree newEdu = b ''degree'' \<and>
              edu_fieldOfStudy newEdu = b ''fieldOfStudy'' \<and> edu_from newEdu = b ''from'' \<and>
              edu_to newEdu = b ''to'' \<and> edu_current newEdu = b ''current'' \<and>
              edu_description newEdu = b ''description'' \<and>
              education p' ! 0 = newEdu \<and>
              length (education p') = Suc (length (education p)) \<and>
              (\<forall>i < length (education p). education p' ! Suc i = education p ! i)))"
proof -
  have pu: "profile_user p = uid"
    using assms(2) by (auto simp: find_Some_iff)
  let ?x = "\<lparr>exp_id = new_id c, exp_title = b ''title'', exp_company = b ''company'',
             exp_location = b ''location'', exp_from = b ''from'', exp_to = b ''to'',
             exp_current = b ''current'', exp_description = b ''description''\<rparr>"
  let ?y = "\<lparr>edu_id = new_id c, edu_school = b ''school'', edu_degree = b ''degree'',
             edu_fieldOfStudy = b ''fieldOfStudy'', edu_from = b ''from'', edu_to = b ''to'',
             edu_current = b ''current'', edu_description = b ''description''\<rparr>"
  have fx: "find (\<lambda>q. profile_user q = uid)
        (updateFirst (\<lambda>q. profile_user q = uid) (\<lambda>_. p\<lparr>experience := ?x # experience p\<rparr>) (profiles st))
      = Some (p\<lparr>experience := ?x # experience p\<rparr>)"
    using find_updateFirst [OF assms(2), of "\<lambda>_. p\<lparr>experience := ?x # experience p\<rparr>"] pu by simp
  have fy: "find (\<lambda>q. profile_user q = uid)
        (updateFirst (\<lambda>q. profile_user q = uid) (\<lambda>_. p\<lparr>education := ?y # education p\<rparr>) (profiles st))
      = Some (p\<lparr>education := ?y # education p\<rparr>)"
    using find_updateFirst [OF assms(2), of "\<lambda>_. p\<lparr>education := ?y # education p\<rparr>"] pu by simp
  have ex: "validationResult experience_checks b = [] \<Longrightarrow>
      put_experience e c uid b st
        = (Response 200 (ProfileJson (p\<lparr>experience := ?x # experience p\<rparr>)),
           st\<lparr>profiles := updateFirst (\<lambda>q. profile_user q = uid)
                 (\<lambda>_. p\<lparr>experience := ?x # experience p\<rparr>) (profiles st)\<rparr>)"
    using assms pu
    by (simp add: put_experience_def put_experience_try_def Profile_findOne_def castObjectId_def
        Profile_save_def unshift_def Let_def)
  have ed: "validationResult education_checks b = [] \<Longrightarrow>
      put_education e c uid b st
        = (Response 200 (ProfileJson (p\<lparr>education := ?y # education p\<rparr>)),
           st\<lparr>profiles := updateFirst (\<lambda>q. profile_user q = uid)
                 (\<lambda>_. p\<lparr>education := ?y # education p\<rparr>) (profiles st)\<rparr>)"
    using assms pu
    by (simp add: put_education_def put_education_try_def Profile_findOne_def castObjectId_def
        Profile_save_def unshift_def Let_def)
  show ?thesis
    apply (intro conjI impI)
    subgoal
      using ex fx
      by (intro exI [of _ ?x] exI [of _ "p\<lparr>experience := ?x # experience p\<rparr>"]) simp
    subgoal
      using ed fy
      by (intro exI [of _ ?y] exI [of _ "p\<lparr>education := ?y # education p\<rparr>"]) simp
    done
qed

theorem add_entry_inserted_at_front_witness:
  "isObjectId ex_env ex_uid \<and>
   find (\<lambda>q. profile_user q = ex_uid) (profiles ex_store) = Some ex_profile \<and>
   validationResult experience_checks ex_experience_body = [] \<and>
   validationResult education_checks ex_education_body = [] \<and>
   (\<exists>newExp. put_experience ex_env ex_ctx ex_uid ex_experience_body ex_store
       = (Response 200 (ProfileJson (ex_profile\<lparr>experience := [newExp, ex_exp1, ex_exp2]\<rparr>)),
          ex_store\<lparr>profiles := [ex_profile\<lparr>experience := [newExp, ex_exp1, ex_exp2]\<rparr>]\<rparr>) \<and>
       exp_title newExp = Some ''Lead'') \<and>
   (\<exists>newEdu. put_education ex_env ex_ctx ex_uid ex_education_body ex_store
       = (Response 200 (ProfileJson (ex_profile\<lparr>education := [newEdu, ex_edu1, ex_edu2]\<rparr>)),
          ex_store\<lparr>profiles := [ex_profile\<lparr>education := [newEdu, ex_edu1, ex_edu2]\<rparr>]\<rparr>) \<and>
       edu_school newEdu = Some ''Yale'')"
proof -
  have a: "isObjectId ex_env ex_uid" by (simp add: ex_env_def ex_uid_def)
  have f: "find (\<lambda>q. profile_user q = ex_uid) (profiles ex_store) = Some ex_profile"
    by (simp add: ex_store_def ex_profile_def)
  have v1: "validationResult experience_checks ex_experience_body = []"
    by (simp add: validationResult_def experience_checks_def check_def toString_def
        not_isEmpty_def ex_experience_body_def)
  have v2: "validationResult education_checks ex_education_body = []"
    by (simp add: validationResult_def education_checks_def check_def toString_def
        not_isEmpty_def ex_education_body_def)
  have u: "updateFirst (\<lambda>q. profile_user q = ex_uid) (\<lambda>_. p') (profiles ex_store) = [p']" for p'
    by (simp add: ex_store_def ex_profile_def)
  have x: "experience ex_profile = [ex_exp1, ex_exp2]" "education ex_profile = [ex_edu1, ex_edu2]"
    by (simp_all add: ex_profile_def)
  have t: "ex_experience_body ''title'' = Some ''Lead''" "ex_education_body ''school'' = Some ''Yale''"
    by (simp_all add: ex_experience_body_def ex_education_body_def)
  from add_entry_inserted_at_front [OF a f, of ex_experience_body ex_ctx] v1
  have one: "\<exists>newExp. put_experience ex_env ex_ctx ex_uid ex_experience_body ex_store
       = (Response 200 (ProfileJson (ex_profile\<lparr>experience := [newExp, ex_exp1, ex_exp2]\<rparr>)),
          ex_store\<lparr>profiles := [ex_profile\<lparr>experience := [newExp, ex_exp1, ex_exp2]\<rparr>]\<rparr>) \<and>
       exp_title newExp = Some ''Lead''"
    unfolding u x t by blast
  from add_entry_inserted_at_front [OF a f, of ex_education_body ex_ctx] v2
  have two: "\<exists>newEdu. put_education ex_env ex_ctx ex_uid ex_education_body ex_store
       = (Response 200 (ProfileJson (ex_profile\<lparr>education := [newEdu, ex_edu1, ex_edu2]\<rparr>)),
          ex_store\<lparr>profiles := [ex_profile\<lparr>education := [newEdu, ex_edu1, ex_edu2]\<rparr>]\<rparr>) \<and>
       edu_school newEdu = Some ''Yale''"
    unfolding u x t by blast
  from a f v1 v2 one two show ?thesis by blast
qed

section \<open>Fetching a profile by user id\<close>

text \<open>
  C8. When the path parameter is not of the store's identifier format the query's cast
  throws an error of kind \<^verbatim>\<open>ObjectId\<close>, and the handler answers 400 with the message
  "Profile Not Found", not 500; for a well-formed identifier that owns no profile the
  answer is the same.
\<close>

theorem fetch_by_user_id_not_found:
  "(\<not> isObjectId e user_id_param \<longrightarrow>
      get_profile_by_user_id e user_id_param st
        = Response 400 (Json (JObj [(''msg'', JStr ''Profile Not Found'')]))) \<and>
   (isObjectId e user_id_param \<and>
    find (\<lambda>p. profile_user p = user_id_param) (profiles st) = None \<longrightarrow>
      get_profile_by_user_id e user_id_param st
        = Response 400 (Json (JObj [(''msg'', JStr ''Profile Not Found'')])))"
  by (simp add: get_profile_by_user_id_def Profile_findOne_def castObjectId_def
      profile_not_found_def res_json_def)

theorem fetch_by_user_id_not_found_witness:
  "\<not> isObjectId ex_env ''not-an-id'' \<and>
   get_profile_by_user_id ex_env ''not-an-id'' ex_store
     = Response 400 (Json (JObj [(''msg'', JStr ''Profile Not Found'')])) \<and>
   isObjectId ex_env ex_other_id \<and>
   find (\<lambda>p. profile_user p = ex_other_id) (profiles ex_store) = None \<and>
   get_profile_by_user_id ex_env ex_other_id ex_store
     = Response 400 (Json (JObj [(''msg'', JStr ''Profile Not Found'')]))"
proof -
  have a: "\<not> isObjectId ex_env ''not-an-id''" by (simp add: ex_env_def)
  have b: "isObjectId ex_env ex_other_id" by (simp add: ex_env_def ex_other_id_def)
  have c: "find (\<lambda>p. profile_user p = ex_other_id) (profiles ex_store) = None"
    by (simp add: ex_defs)
  show ?thesis
    using a b c fetch_by_user_id_not_found [of ex_env "''not-an-id''" ex_store]
      fetch_by_user_id_not_found [of ex_env ex_other_id ex_store]
    by blast
qed

section \<open>The skills of a profile\<close>

lemma trimmed_pieces:
  "list_all2 (\<lambda>piece k. (\<exists>l r. piece = l @ k @ r \<and> list_all is_space l \<and> list_all is_space r) \<and>
                          (k = [] \<or> (\<not> is_space (hd k) \<and> \<not> is_space (last k))))
     ps (map trim ps)"
  using trim_decompose trim_ends by (simp add: list_all2_map2 list.rel_refl)

text \<open>
  C9. For a create-or-update request with a non-empty skills string, the skills of the
  update document are the pieces of the string between its commas, in their order, each
  trimmed: the pieces hold no comma and joined with commas give the string back, and each
  skill is its piece without the white space before and after it. When the request passes
  validation and the caller's identifier is of the store's format, the answer is 200 and
  the caller's profile (the updated one or the new one) is stored with these skills.
\<close>

theorem skills_split_on_commas_and_trimmed:
  assumes "b ''skills'' = Some s"
    and "s \<noteq> []"
  shows "pf_skills (build_profileFields uid b) = Some (map trim (split_on CHR '','' s)) \<and>
         join_with CHR '','' (split_on CHR '','' s) = s \<and>
         list_all (\<lambda>piece. CHR '','' \<notin> set piece) (split_on CHR '','' s) \<and>
         list_all2 (\<lambda>piece k. (\<exists>l r. piece = l @ k @ r \<and> list_all is_space l \<and> list_all is_space r) \<and>
                          (k = [] \<or> (\<not> is_space (hd k) \<and> \<not> is_space (last k))))
           (split_on CHR '','' s) (map trim (split_on CHR '','' s)) \<and>
         (validationResult profile_checks b = [] \<and> isObjectId e uid \<longrightarrow>
            (\<exists>p. post_profile e c uid b st
                   = (Response 200 (ProfileJson p), snd (post_profile e c uid b st)) \<and>
                 find (\<lambda>q. profile_user q = uid) (profiles (snd (post_profile e c uid b st))) = Some p \<and>
                 skills p = map trim (split_on CHR '','' s)))"
proof -
  have sk: "pf_skills (build_profileFields uid b) = Some (map trim (split_on CHR '','' s))"
    using assms by (simp add: build_profileFields_def toString_def truthy_def)
  have us: "pf_user (build_profileFields uid b) = uid"
    by (simp add: build_profileFields_def)
  have pieces: "list_all (\<lambda>piece. CHR '','' \<notin> set piece) (split_on CHR '','' s)"
    using split_on_pieces by (auto simp: list_all_iff)
  have stored: "\<exists>p. post_profile e c uid b st
                   = (Response 200 (ProfileJson p), snd (post_profile e c uid b st)) \<and>
                 find (\<lambda>q. profile_user q = uid) (profiles (snd (post_profile e c uid b st))) = Some p \<and>
                 skills p = map trim (split_on CHR '','' s)"
    if v: "validationResult profile_checks b = []" and i: "isObjectId e uid"
  proof (cases "find (\<lambda>q. profile_user q = uid) (profiles st)")
    case None
    then show ?thesis
      using v i sk us
      by (simp add: post_profile_def post_profile_try_def Profile_findOne_def castObjectId_def
          Let_def find_append_one new_Profile_def)
  next
    case (Some p0)
    have "profile_user (apply_set (build_profileFields uid b) p0) = uid"
      using us by (simp add: apply_set_def)
    then have "find (\<lambda>q. profile_user q = uid)
                 (updateFirst (\<lambda>q. profile_user q = uid)
                    (\<lambda>_. apply_set (build_profileFields uid b) p0) (profiles st))
               = Some (apply_set (build_profileFields uid b) p0)"
      using find_updateFirst [OF Some, of "\<lambda>_. apply_set (build_profileFields uid b) p0"]
      by simp
    moreover have "skills (apply_set (build_profileFields uid b) p0) = map trim (split_on CHR '','' s)"
      using sk by (simp add: apply_set_def)
    ultimately show ?thesis
      using v i Some
      by (simp add: post_profile_def post_profile_try_def Profile_findOne_def castObjectId_def
          Let_def)
  qed
  show ?thesis
    using sk join_split_on [of "CHR '',''" s] pieces trimmed_pieces [of "split_on CHR '','' s"] stored
    by blast
qed

theorem skills_split_on_commas_and_trimmed_witness:
  "ex_skills_body ''skills'' = Some ''node, react , css'' \<and> ''node, react , css'' \<noteq> [] \<and>
   validationResult profile_checks ex_skills_body = [] \<and> isObjectId ex_env ex_uid \<and>
   pf_skills (build_profileFields ex_uid ex_skills_body) = Some [''node'', ''react'', ''css''] \<and>
   (\<exists>p. find (\<lambda>q. profile_user q = ex_uid)
          (profiles (snd (post_profile ex_env ex_ctx ex_uid ex_skills_body ex_store))) = Some p \<and>
        skills p = [''node'', ''react'', ''css''])"
proof -
  have v: "validationResult profile_checks ex_skills_body = []"
    by (simp add: validationResult_def profile_checks_def check_def toString_def not_isEmpty_def
        ex_skills_body_def)
  have i: "isObjectId ex_env ex_uid" by (simp add: ex_env_def ex_uid_def)
  have s: "ex_skills_body ''skills'' = Some ''node, react , css''"
    by (simp add: ex_skills_body_def)
  have n: "''node, react , css'' \<noteq> []" by simp
  have t: "map trim (split_on CHR '','' ''node, react , css'') = [''node'', ''react'', ''css'']"
    by (simp add: trim_def is_space_def)
  show ?thesis
    using skills_split_on_commas_and_trimmed [where b = ex_skills_body
        and s = "''node, react , css''" and uid = ex_uid and e = ex_env and c = ex_ctx
        and st = ex_store] v i s n t
    by auto
qed

section \<open>Deleting the account\<close>

text \<open>
  C10, as stated: every authenticated delete-account request is answered 200. The
  middleware accepts the token below, which the secret signs for an identifier that is not
  of the store's format; the removal's cast throws an error of kind \<^verbatim>\<open>ObjectId\<close> and the
  handler's catch answers 400 with the message "Profile Not Found", with nothing removed.
\<close>

theorem delete_account_malformed_id_counterexample:
  "auth ex_env (now ex_ctx) (Some ex_malformed_token) = Inr ''not-an-id'' \<and>
   behind_auth ex_env ex_ctx (Some ex_malformed_token) (delete_account ex_env) ex_store_two
     = (Response 400 (Json (JObj [(''msg'', JStr ''Profile Not Found'')])), ex_store_two)"
  by (simp add: behind_auth_def auth_def jwt_verify_def jwt_sign_def ex_malformed_token_def
      delete_account_def delete_account_try_def castObjectId_def profile_not_found_def
      res_json_def Let_def ex_env_def ex_ctx_def)

text \<open>
  C10, amended. For a request that the middleware hands on with a user identifier of the
  store's format, delete-account answers 200 with the message "User Deleted" and leaves a
  store in which: the profiles are the old ones without the first profile of that user,
  when there is one, and the old ones otherwise; the users are the old ones without the
  first user of that identifier, when there is one, and the old ones otherwise; each of
  the two holds whatever the other collection contains; and the documents of every other
  user are the old ones, in their order. For an identifier that is not of the store's
  format the answer is 400 "Profile Not Found" and the store is the old one.
\<close>

theorem delete_account_confirms:
  assumes "auth e (now c) header = Inr uid"
  shows "(isObjectId e uid \<longrightarrow>
           (\<exists>st'. behind_auth e c header (delete_account e) st
                     = (Response 200 (Json (JObj [(''msg'', JStr ''User Deleted'')])), st') \<and>
                  (find (\<lambda>p. profile_user p = uid) (profiles st) = None \<longrightarrow>
                     profiles st' = profiles st) \<and>
                  (\<forall>p. find (\<lambda>p. profile_user p = uid) (profiles st) = Some p \<longrightarrow>
                     (\<exists>pre post. profiles st = pre @ p # post \<and>
                        find (\<lambda>p. profile_user p = uid) pre = None \<and>
                        profiles st' = pre @ post)) \<and>
                  (find (\<lambda>u. user_id u = uid) (users st) = None \<longrightarrow> users st' = users st) \<and>
                  (\<forall>u. find (\<lambda>u. user_id u = uid) (users st) = Some u \<longrightarrow>
                     (\<exists>pre post. users st = pre @ u # post \<and>
                        find (\<lambda>u. user_id u = uid) pre = None \<and>
                        users st' = pre @ post)) \<and>
                  filter (\<lambda>p. profile_user p \<noteq> uid) (profiles st')
                    = filter (\<lambda>p. profile_user p \<noteq> uid) (profiles st) \<and>
                  filter (\<lambda>u. user_id u \<noteq> uid) (users st')
                    = filter (\<lambda>u. user_id u \<noteq> uid) (users st))) \<and>
         (\<not> isObjectId e uid \<longrightarrow>
            behind_auth e c header (delete_account e) st
              = (Response 400 (Json (JObj [(''msg'', JStr ''Profile Not Found'')])), st))"
proof (intro conjI impI)
  assume i: "isObjectId e uid"
  let ?st' = "\<lparr>users = removeFirst (\<lambda>u. user_id u = uid) (users st),
               profiles = removeFirst (\<lambda>p. profile_user p = uid) (profiles st)\<rparr>"
  have r: "behind_auth e c header (delete_account e) st
      = (Response 200 (Json (JObj [(''msg'', JStr ''User Deleted'')])), ?st')"
    using assms i
    by (simp add: behind_auth_def delete_account_def delete_account_try_def castObjectId_def
        res_json_def Let_def)
  have p0: "find (\<lambda>p. profile_user p = uid) (profiles st) = None \<longrightarrow>
      profiles ?st' = profiles st"
    by (simp add: removeFirst_none)
  have p1: "\<forall>p. find (\<lambda>p. profile_user p = uid) (profiles st) = Some p \<longrightarrow>
      (\<exists>pre post. profiles st = pre @ p # post \<and>
         find (\<lambda>p. profile_user p = uid) pre = None \<and> profiles ?st' = pre @ post)"
    using removeFirst_some [of "\<lambda>p. profile_user p = uid" "profiles st"] by simp
  have u0: "find (\<lambda>u. user_id u = uid) (users st) = None \<longrightarrow> users ?st' = users st"
    by (simp add: removeFirst_none)
  have u1: "\<forall>u. find (\<lambda>u. user_id u = uid) (users st) = Some u \<longrightarrow>
      (\<exists>pre post. users st = pre @ u # post \<and>
         find (\<lambda>u. user_id u = uid) pre = None \<and> users ?st' = pre @ post)"
    using removeFirst_some [of "\<lambda>u. user_id u = uid" "users st"] by simp
  have fp: "filter (\<lambda>p. profile_user p \<noteq> uid) (profiles ?st')
      = filter (\<lambda>p. profile_user p \<noteq> uid) (profiles st)"
    using removeFirst_filter [of "\<lambda>p. profile_user p = uid" "profiles st"] by simp
  have fu: "filter (\<lambda>u. user_id u \<noteq> uid) (users ?st')
      = filter (\<lambda>u. user_id u \<noteq> uid) (users st)"
    using removeFirst_filter [of "\<lambda>u. user_id u = uid" "users st"] by simp
  from r p0 p1 u0 u1 fp fu
  show "\<exists>st'. behind_auth e c header (delete_account e) st
                     = (Response 200 (Json (JObj [(''msg'', JStr ''User Deleted'')])), st') \<and>
                  (find (\<lambda>p. profile_user p = uid) (profiles st) = None \<longrightarrow>
                     profiles st' = profiles st) \<and>
                  (\<forall>p. find (\<lambda>p. profile_user p = uid) (profiles st) = Some p \<longrightarrow>
                     (\<exists>pre post. profiles st = pre @ p # post \<and>
                        find (\<lambda>p. profile_user p = uid) pre = None \<and>
                        profiles st' = pre @ post)) \<and>
                  (find (\<lambda>u. user_id u = uid) (users st) = None \<longrightarrow> users st' = users st) \<and>
                  (\<forall>u. find (\<lambda>u. user_id u = uid) (users st) = Some u \<longrightarrow>
                     (\<exists>pre post. users st = pre @ u # post \<and>
                        find (\<lambda>u. user_id u = uid) pre = None \<and>
                        users st' = pre @ post)) \<and>
                  filter (\<lambda>p. profile_user p \<noteq> uid) (profiles st')
                    = filter (\<lambda>p. profile_user p \<noteq> uid) (profiles st) \<and>
                  filter (\<lambda>u. user_id u \<noteq> uid) (users st')
                    = filter (\<lambda>u. user_id u \<noteq> uid) (users st)"
    by (intro exI [of _ ?st'] conjI)
next
  assume "\<not> isObjectId e uid"
  then show "behind_auth e c header (delete_account e) st
      = (Response 400 (Json (JObj [(''msg'', JStr ''Profile Not Found'')])), st)"
    using assms
    by (simp add: behind_auth_def delete_account_def delete_account_try_def castObjectId_def
        profile_not_found_def res_json_def)
qed

text \<open>
  Ann's token on four stores: both of her documents present, only her user, only her
  profile, and neither (the token of an identifier that owns nothing). Bob's documents
  stay in each.
\<close>

theorem delete_account_confirms_witness:
  "auth ex_env (now ex_ctx) (Some ex_ann_token) = Inr ex_uid \<and> isObjectId ex_env ex_uid \<and>
   find (\<lambda>p. profile_user p = ex_uid) (profiles ex_store_two) = Some ex_profile \<and>
   find (\<lambda>u. user_id u = ex_uid) (users ex_store_two) = Some ex_user \<and>
   behind_auth ex_env ex_ctx (Some ex_ann_token) (delete_account ex_env) ex_store_two
     = (Response 200 (Json (JObj [(''msg'', JStr ''User Deleted'')])),
        \<lparr>users = [ex_bob], profiles = [ex_bob_profile]\<rparr>) \<and>
   find (\<lambda>p. profile_user p = ex_uid) (profiles ex_store_no_profile) = None \<and>
   behind_auth ex_env ex_ctx (Some ex_ann_token) (delete_account ex_env) ex_store_no_profile
     = (Response 200 (Json (JObj [(''msg'', JStr ''User Deleted'')])),
        \<lparr>users = [ex_bob], profiles = [ex_bob_profile]\<rparr>) \<and>
   find (\<lambda>u. user_id u = ex_uid) (users ex_store_no_user) = None \<and>
   behind_auth ex_env ex_ctx (Some ex_ann_token) (delete_account ex_env) ex_store_no_user
     = (Response 200 (Json (JObj [(''msg'', JStr ''User Deleted'')])),
        \<lparr>users = [ex_bob], profiles = [ex_bob_profile]\<rparr>) \<and>
   auth ex_env (now ex_ctx) (Some ex_stranger_token) = Inr ex_other_id \<and>
   isObjectId ex_env ex_other_id \<and>
   behind_auth ex_env ex_ctx (Some ex_stranger_token) (delete_account ex_env) ex_store_two
     = (Response 200 (Json (JObj [(''msg'', JStr ''User Deleted'')])), ex_store_two)"
proof -
  have a: "auth ex_env (now ex_ctx) (Some ex_ann_token) = Inr ex_uid"
    by (simp add: auth_def jwt_verify_def jwt_sign_def ex_ann_token_def Let_def
        ex_env_def ex_ctx_def)
  have a': "auth ex_env (now ex_ctx) (Some ex_stranger_token) = Inr ex_other_id"
    by (simp add: auth_def jwt_verify_def jwt_sign_def ex_stranger_token_def Let_def
        ex_env_def ex_ctx_def)
  have i: "isObjectId ex_env ex_uid" by (simp add: ex_env_def ex_uid_def)
  have i': "isObjectId ex_env ex_other_id" by (simp add: ex_env_def ex_other_id_def)
  have docs: "profile_user ex_bob_profile \<noteq> ex_uid" "user_id ex_bob \<noteq> ex_uid"
    "profile_user ex_profile = ex_uid" "user_id ex_user = ex_uid"
    "profile_user ex_bob_profile \<noteq> ex_other_id" "user_id ex_bob \<noteq> ex_other_id"
    "profile_user ex_profile \<noteq> ex_other_id" "user_id ex_user \<noteq> ex_other_id"
    by (simp_all add: ex_bob_profile_def ex_bob_def ex_profile_def ex_user_def ex_uid_def
        ex_other_id_def)
  have finds:
    "find (\<lambda>p. profile_user p = ex_uid) (profiles ex_store_two) = Some ex_profile"
    "find (\<lambda>u. user_id u = ex_uid) (users ex_store_two) = Some ex_user"
    "find (\<lambda>p. profile_user p = ex_uid) (profiles ex_store_no_profile) = None"
    "find (\<lambda>u. user_id u = ex_uid) (users ex_store_no_profile) = Some ex_user"
    "find (\<lambda>p. profile_user p = ex_uid) (profiles ex_store_no_user) = Some ex_profile"
    "find (\<lambda>u. user_id u = ex_uid) (users ex_store_no_user) = None"
    "find (\<lambda>p. profile_user p = ex_other_id) (profiles ex_store_two) = None"
    "find (\<lambda>u. user_id u = ex_other_id) (users ex_store_two) = None"
    using docs by (simp_all add: ex_store_two_def ex_store_no_profile_def ex_store_no_user_def)
  have snds:
    "snd (behind_auth ex_env ex_ctx (Some ex_ann_token) (delete_account ex_env) ex_store_two)
       = \<lparr>users = [ex_bob], profiles = [ex_bob_profile]\<rparr>"
    "snd (behind_auth ex_env ex_ctx (Some ex_ann_token) (delete_account ex_env) ex_store_no_profile)
       = \<lparr>users = [ex_bob], profiles = [ex_bob_profile]\<rparr>"
    "snd (behind_auth ex_env ex_ctx (Some ex_ann_token) (delete_account ex_env) ex_store_no_user)
       = \<lparr>users = [ex_bob], profiles = [ex_bob_profile]\<rparr>"
    "snd (behind_auth ex_env ex_ctx (Some ex_stranger_token) (delete_account ex_env) ex_store_two)
       = ex_store_two"
    using a a' i i' docs
    by (simp_all add: behind_auth_def delete_account_def delete_account_try_def castObjectId_def
        Let_def ex_store_two_def ex_store_no_profile_def ex_store_no_user_def)
  have f1: "fst (behind_auth ex_env ex_ctx (Some ex_ann_token) (delete_account ex_env) ex_store_two)
       = Response 200 (Json (JObj [(''msg'', JStr ''User Deleted'')]))"
    using delete_account_confirms [OF a, of ex_store_two, THEN conjunct1, THEN mp, OF i]
    by (elim exE conjE) simp
  have f2: "fst (behind_auth ex_env ex_ctx (Some ex_ann_token) (delete_account ex_env) ex_store_no_profile)
       = Response 200 (Json (JObj [(''msg'', JStr ''User Deleted'')]))"
    using delete_account_confirms [OF a, of ex_store_no_profile, THEN conjunct1, THEN mp, OF i]
    by (elim exE conjE) simp
  have f3: "fst (behind_auth ex_env ex_ctx (Some ex_ann_token) (delete_account ex_env) ex_store_no_user)
       = Response 200 (Json (JObj [(''msg'', JStr ''User Deleted'')]))"
    using delete_account_confirms [OF a, of ex_store_no_user, THEN conjunct1, THEN mp, OF i]
    by (elim exE conjE) simp
  have f4: "fst (behind_auth ex_env ex_ctx (Some ex_stranger_token) (delete_account ex_env) ex_store_two)
       = Response 200 (Json (JObj [(''msg'', JStr ''User Deleted'')]))"
    using delete_account_confirms [OF a', of ex_store_two, THEN conjunct1, THEN mp, OF i']
    by (elim exE conjE) simp
  show ?thesis
    using a a' i i' finds f1 f2 f3 f4 snds by (simp add: prod_eq_iff)
qed

end
